theory Spec2Isabelle
  imports Complex_Main "HOL-Library.Word"
begin

section \<open>Exceptions\<close>

text \<open>
  The exceptions that \<^verbatim>\<open>cma/interfaces.py\<close> raises or catches, as values.
  \<open>OtherError\<close> stands for any exception class the file does not name
  (an objective function, a callback or a logger may raise anything).
\<close>

datatype error =
    NotImplementedError
  | AssertionError
  | ValueError
  | TypeError
  | AttributeError
  | IndexError
  | ZeroDivisionError
  | OtherError

section \<open>StatisticalModelSamplerWithZeroMeanBaseClass\<close>

text \<open>
  The sampler object. \<open>dimension\<close> is set by the derived class (the base
  constructor only raises). \<open>weights\<close> and \<open>parameters_cache\<close> (the attribute
  \<^verbatim>\<open>_parameters\<close>) are created by the first call of \<open>parameters\<close>: \<open>None\<close> is
  "the attribute does not exist", where reading it raises \<^verbatim>\<open>AttributeError\<close>.
  The returned \<^verbatim>\<open>dict(c1=..., cmu=...)\<close> is an association list in insertion order.

  Numbers are exact reals here. The source computes in NumPy: in float64 for weights
  given as floats, in int64 for a list of Python ints, with \<^verbatim>\<open>/\<close> giving float64. The
  rounding, underflow and overflow of float64 are not part of this model, so what is
  proved of \<open>parameters\<close> below is proved of its formulas in exact arithmetic. The
  int64 squares and sums are modelled with their wrap-around further down
  (\<open>mueff_numerator_int64\<close>, \<open>mueff_denominator_int64\<close>).
\<close>

record sampler =
  dimension :: int
  weights :: "real list option"
  parameters_cache :: "(string \<times> real) list option"

text \<open>
  \<^verbatim>\<open>np.all(self.weights == weights)\<close> for one-dimensional arrays. NumPy compares
  elementwise after broadcasting: arrays of equal length are compared position by
  position, and an array of length one is compared with every entry of the other.
  For lengths that do not broadcast the comparison as a whole is \<^verbatim>\<open>False\<close>
  (with a deprecation warning) in the NumPy releases this code was written for; from
  NumPy 1.25 on the comparison raises \<^verbatim>\<open>ValueError\<close> there instead. The last branch
  below is the older behaviour, and no theorem about a claim reaches it.
\<close>

definition np_all_eq :: "real list \<Rightarrow> real list \<Rightarrow> bool" where
  "np_all_eq a b =
     (if length a = length b then list_all (\<lambda>(x, y). x = y) (zip a b)
      else if length a = 1 then list_all (\<lambda>y. hd a = y) b
      else if length b = 1 then list_all (\<lambda>x. x = hd b) a
      else False)"

text \<open>
  Division: a zero denominator raises, as Python's \<^verbatim>\<open>0 / 0\<close> does on the integers that
  \<^verbatim>\<open>sum\<close> returns for an empty array. (On NumPy floats a zero denominator gives
  \<^verbatim>\<open>nan\<close> or \<^verbatim>\<open>inf\<close> with a warning; in exact arithmetic no other denominator of
  \<open>parameters\<close> can be zero once the first division has succeeded.)
\<close>

definition py_div :: "real \<Rightarrow> real \<Rightarrow> error + real" where
  "py_div a b = (if b = 0 then Inl ZeroDivisionError else Inr (a / b))"

text \<open>
  The sub-expressions of \<open>parameters\<close> that are divided by, named after the
  source's variables: \<^verbatim>\<open>w = np.array([w for w in weights if w > 0])\<close>,
  \<^verbatim>\<open>sum(w)**2\<close>, \<^verbatim>\<open>sum(w**2)\<close>, and the two denominators of \<^verbatim>\<open>c1\<close> and \<^verbatim>\<open>cmu\<close>.
\<close>

definition positive_weights :: "real list \<Rightarrow> real list" where
  "positive_weights ws = filter (\<lambda>w. w > 0) ws"

definition mueff_numerator :: "real list \<Rightarrow> real" where
  "mueff_numerator ws = (sum_list (positive_weights ws))\<^sup>2"

definition mueff_denominator :: "real list \<Rightarrow> real" where
  "mueff_denominator ws = sum_list (map (\<lambda>w. w\<^sup>2) (positive_weights ws))"

definition c1_denominator :: "int \<Rightarrow> real \<Rightarrow> real" where
  "c1_denominator n mueff = (real_of_int n + 13 / 10)\<^sup>2 + mueff"

definition cmu_denominator :: "int \<Rightarrow> real \<Rightarrow> real" where
  "cmu_denominator n mueff = (real_of_int n + 2)\<^sup>2 + 2 * mueff / 2"




text \<open>
  \<^verbatim>\<open>parameters(self, weights)\<close>, lines 262-285. The result is the returned value or
  the raised exception, with the object as the call leaves it: \<^verbatim>\<open>self.weights\<close> is
  overwritten before the first division, so it is replaced also when that division
  raises. An \<^verbatim>\<open>AttributeError\<close> inside the \<^verbatim>\<open>try\<close> (no stored weights, or no
  stored mapping) falls through to the computation.
\<close>

definition parameters :: "real list \<Rightarrow> sampler \<Rightarrow> (error + (string \<times> real) list) \<times> sampler" where
  "parameters ws self =
     (case (case weights self of
              None \<Rightarrow> None
            | Some stored \<Rightarrow> if np_all_eq stored ws then parameters_cache self else None) of
        Some cached \<Rightarrow> (Inr cached, self)
      | None \<Rightarrow>
          (let self1 = self\<lparr>weights := Some ws\<rparr>;
               lam = length ws
           in case py_div (mueff_numerator ws) (mueff_denominator ws) of
                Inl e \<Rightarrow> (Inl e, self1)
              | Inr mueff \<Rightarrow>
                  (case py_div (min 1 (real lam / 6) * 2) (c1_denominator (dimension self) mueff) of
                     Inl e \<Rightarrow> (Inl e, self1)
                   | Inr c1 \<Rightarrow>
                       (case py_div 1 mueff of
                          Inl e \<Rightarrow> (Inl e, self1)
                        | Inr inv_mueff \<Rightarrow>
                            (case py_div (2 * (mueff - 2 + inv_mueff))
                                         (cmu_denominator (dimension self) mueff) of
                               Inl e \<Rightarrow> (Inl e, self1)
                             | Inr q \<Rightarrow>
                                 (let p = [(''c1'', c1), (''cmu'', min (1 - c1) q)]
                                  in (Inr p, self1\<lparr>parameters_cache := Some p\<rparr>)))))))"

text \<open>\<^verbatim>\<open>update(self, vectors, weights)\<close>, lines 256-260: the body is the \<^verbatim>\<open>raise\<close> alone.\<close>

definition update :: "real list list \<Rightarrow> real list \<Rightarrow> sampler \<Rightarrow> (error + unit) \<times> sampler" where
  "update vectors ws self = (Inl NotImplementedError, self)"

section \<open>OOOptimizer: the abstract base class\<close>

text \<open>
  The attributes the base class touches. \<open>countiter\<close> and \<open>xcurrent\<close> are \<open>None\<close>
  while the attribute does not exist: the base class creates them only in the lines of
  \<open>initialize\<close> that follow its \<^verbatim>\<open>raise\<close>.
\<close>

record optimizer =
  xstart :: "real list"
  more_kwargs :: "(string \<times> string) list"
  countiter :: "int option"
  xcurrent :: "real list option"

datatype pyvalue = Scalar real | Vector "real list"

text \<open>\<^verbatim>\<open>initialize\<close>, lines 70-74: the \<^verbatim>\<open>raise\<close> is the first statement.\<close>

definition initialize :: "optimizer \<Rightarrow> (error + unit) \<times> optimizer" where
  "initialize self = (Inl NotImplementedError, self)"

text \<open>\<^verbatim>\<open>__init__\<close>, lines 65-69: a new object gets the two attributes, then \<^verbatim>\<open>initialize()\<close>.\<close>

definition init :: "real list \<Rightarrow> (string \<times> string) list \<Rightarrow> (error + unit) \<times> optimizer" where
  "init x0 kwargs =
     initialize \<lparr>xstart = x0, more_kwargs = kwargs, countiter = None, xcurrent = None\<rparr>"

definition ask :: "optimizer \<Rightarrow> (error + real list list) \<times> optimizer" where
  "ask self = (Inl NotImplementedError, self)"

text \<open>
  \<^verbatim>\<open>tell\<close>, lines 80-85: \<^verbatim>\<open>self.countiter += 1\<close> reads the attribute first
  (\<^verbatim>\<open>AttributeError\<close> when it does not exist), stores the sum, and then the method raises.
\<close>

definition tell :: "real list list \<Rightarrow> real list \<Rightarrow> optimizer \<Rightarrow> (error + unit) \<times> optimizer" where
  "tell solutions function_values self =
     (case countiter self of
        None \<Rightarrow> (Inl AttributeError, self)
      | Some n \<Rightarrow> (Inl NotImplementedError, self\<lparr>countiter := Some (n + 1)\<rparr>))"

definition stop :: "optimizer \<Rightarrow> (error + (string \<times> real) list) \<times> optimizer" where
  "stop self = (Inl NotImplementedError, self)"

definition disp :: "int option \<Rightarrow> optimizer \<Rightarrow> (error + unit) \<times> optimizer" where
  "disp modulo_arg self = (Inr (), self)"

definition result :: "optimizer \<Rightarrow> (error + pyvalue list) \<times> optimizer" where
  "result self = (Inl NotImplementedError, self)"

section \<open>Loggers and callbacks\<close>

text \<open>
  A logger as \<open>optimize\<close> sees it: an optional attribute \<^verbatim>\<open>modulo\<close> and an optional
  method \<^verbatim>\<open>add\<close>, which either accepts the keyword \<^verbatim>\<open>modulo\<close> (its argument is
  \<open>None\<close> when the keyword is not passed) or does not (passing it raises
  \<^verbatim>\<open>TypeError\<close> before the body runs). \<^verbatim>\<open>add\<close> acts on the optimizer it is given; the
  logger's own data is part of that state \<open>'s\<close>.
\<close>

datatype 's add_method =
    Add_with_modulo "int option \<Rightarrow> 's \<Rightarrow> (error + unit) \<times> 's"
  | Add_without_modulo "'s \<Rightarrow> (error + unit) \<times> 's"

record 's data_logger =
  logger_modulo :: "int option"
  logger_add :: "'s add_method option"

text \<open>
  \<^verbatim>\<open>self.logger\<close>: the attribute may not exist (the base class never sets it), may be
  \<^verbatim>\<open>None\<close>, or is a logger object (true in a boolean context, as an object without
  \<^verbatim>\<open>__bool__\<close> and \<^verbatim>\<open>__len__\<close> is).
\<close>

datatype 's logger_ref = No_logger_attribute | Logger_None | Logger "'s data_logger"

text \<open>\<^verbatim>\<open>BaseDataLogger\<close>, lines 328-343: no \<^verbatim>\<open>modulo\<close>; \<^verbatim>\<open>add\<close> takes \<^verbatim>\<open>**kwargs\<close> and raises.\<close>

definition BaseDataLogger :: "'s data_logger" where
  "BaseDataLogger =
     \<lparr>logger_modulo = None,
      logger_add = Some (Add_with_modulo (\<lambda>modulo_arg self. (Inl NotImplementedError, self)))\<rparr>"

text \<open>An entry of a callback list, and the \<^verbatim>\<open>callback\<close> argument of \<open>optimize\<close>.\<close>

datatype 's pyobject = PyNone | Not_callable | Callable "'s \<Rightarrow> (error + unit) \<times> 's"

datatype 's callback_argument =
    Callback_None
  | Callback_callable "'s \<Rightarrow> (error + unit) \<times> 's"
  | Callback_iterable "'s pyobject list"
  | Callback_other

text \<open>\<^verbatim>\<open>self.logger.add\<close> as the bound method put into the callback list and called \<^verbatim>\<open>f(self)\<close>.\<close>

definition add_as_callback :: "'s add_method \<Rightarrow> 's \<Rightarrow> (error + unit) \<times> 's" where
  "add_as_callback a = (case a of Add_with_modulo f \<Rightarrow> f None | Add_without_modulo f \<Rightarrow> f)"

section \<open>OOOptimizer.optimize\<close>

text \<open>
  The methods \<open>optimize\<close> calls on \<^verbatim>\<open>self\<close>, as the derived class provides them, over
  the state \<open>'s\<close> of the object. \<^verbatim>\<open>stop()\<close> returns a dictionary, true when non-empty.
\<close>

record 's optimizer_class =
  stop_method :: "'s \<Rightarrow> (error + (string \<times> real) list) \<times> 's"
  ask_method :: "'s \<Rightarrow> (error + real list list) \<times> 's"
  tell_method :: "real list list \<Rightarrow> real list \<Rightarrow> 's \<Rightarrow> (error + unit) \<times> 's"
  disp_method :: "int option \<Rightarrow> 's \<Rightarrow> (error + unit) \<times> 's"
  result_property :: "'s \<Rightarrow> (error + pyvalue list) \<times> 's"
  logger_attribute :: "'s \<Rightarrow> 's logger_ref"

text \<open>The base class itself: every method as defined above, and no \<^verbatim>\<open>logger\<close>.\<close>

definition OOOptimizer :: "optimizer optimizer_class" where
  "OOOptimizer =
     \<lparr>stop_method = stop, ask_method = ask, tell_method = tell, disp_method = disp,
      result_property = result, logger_attribute = (\<lambda>self. No_logger_attribute)\<rparr>"

text \<open>
  \<^verbatim>\<open>_prepare_callback_list\<close>, lines 195-218. \<^verbatim>\<open>list(callback)\<close> is evaluated before
  \<^verbatim>\<open>self.logger.add\<close>, so an argument that is neither callable nor iterable raises
  \<^verbatim>\<open>TypeError\<close> outside the handler for \<^verbatim>\<open>AttributeError\<close>; a missing logger, a
  \<^verbatim>\<open>None\<close> logger and a logger without \<^verbatim>\<open>add\<close> all raise the \<^verbatim>\<open>AttributeError\<close>
  that is passed over.
\<close>

definition all_callable :: "'s pyobject list \<Rightarrow> bool" where
  "all_callable cs = list_all (\<lambda>c. case c of Callable f \<Rightarrow> True | _ \<Rightarrow> False) cs"

definition prepare_callback_list ::
  "'s optimizer_class \<Rightarrow> 's callback_argument \<Rightarrow> 's \<Rightarrow> error + 's pyobject list" where
  "prepare_callback_list m callback self =
     (case (case callback of
              Callback_None \<Rightarrow> Some []
            | Callback_callable f \<Rightarrow> Some [Callable f]
            | Callback_iterable cs \<Rightarrow> Some cs
            | Callback_other \<Rightarrow> None) of
        None \<Rightarrow> Inl TypeError
      | Some cs \<Rightarrow>
          (let cs1 = (case logger_attribute m self of
                        Logger lg \<Rightarrow>
                          (case logger_add lg of
                             Some a \<Rightarrow> cs @ [Callable (add_as_callback a)]
                           | None \<Rightarrow> cs)
                      | _ \<Rightarrow> cs)
           in if all_callable cs1 then Inr cs1 else Inl ValueError))"

text \<open>
  \<^verbatim>\<open>_force_final_logging\<close>, lines 220-240, with what it prints. \<^verbatim>\<open>bool(...)\<close> of the
  logger's \<^verbatim>\<open>modulo\<close> is passed as \<open>1\<close> or \<open>0\<close>.
\<close>

datatype printed =
    Suppressing_final_logger_call
  | Termination_by "(string \<times> real) list"
  | Best_f_value pyvalue
  | Solution pyvalue

definition force_final_logging ::
  "'s optimizer_class \<Rightarrow> 's \<Rightarrow> (error + unit) \<times> 's \<times> printed list" where
  "force_final_logging m self =
     (case logger_attribute m self of
        No_logger_attribute \<Rightarrow> (Inl AttributeError, self, [])
      | Logger_None \<Rightarrow> (Inr (), self, [])
      | Logger lg \<Rightarrow>
          (let forced = (case logger_modulo lg of
                           None \<Rightarrow> 1
                         | Some v \<Rightarrow> if v \<noteq> 0 then 1 else 0)
           in case logger_add lg of
                None \<Rightarrow> (Inr (), self, [])
              | Some (Add_without_modulo f) \<Rightarrow> (Inr (), self, [Suppressing_final_logger_call])
              | Some (Add_with_modulo f) \<Rightarrow>
                  (case f (Some forced) self of
                     (Inr u, self1) \<Rightarrow> (Inr (), self1, [])
                   | (Inl e, self1) \<Rightarrow>
                       if e = AttributeError then (Inr (), self1, [])
                       else if e = TypeError then (Inr (), self1, [Suppressing_final_logger_call])
                       else (Inl e, self1, []))))"

text \<open>\<^verbatim>\<open>[objective_fct(x, *args) for x in X]\<close>: the first exception ends the comprehension.\<close>

fun evaluate :: "(real list \<Rightarrow> 'a \<Rightarrow> error + real) \<Rightarrow> 'a \<Rightarrow> real list list \<Rightarrow> error + real list" where
  "evaluate objective_fct args [] = Inr []"
| "evaluate objective_fct args (x # X) =
     (case objective_fct x args of
        Inl e \<Rightarrow> Inl e
      | Inr v \<Rightarrow>
          (case evaluate objective_fct args X of
             Inl e \<Rightarrow> Inl e
           | Inr vs \<Rightarrow> Inr (v # vs)))"

text \<open>\<^verbatim>\<open>for f in callback: f is None or f(self)\<close>, lines 181-182.\<close>

fun run_callbacks :: "'s pyobject list \<Rightarrow> 's \<Rightarrow> (error + unit) \<times> 's" where
  "run_callbacks [] self = (Inr (), self)"
| "run_callbacks (PyNone # cs) self = run_callbacks cs self"
| "run_callbacks (Not_callable # cs) self = (Inl TypeError, self)"
| "run_callbacks (Callable f # cs) self =
     (case f self of
        (Inl e, self1) \<Rightarrow> (Inl e, self1)
      | (Inr u, self1) \<Rightarrow> run_callbacks cs self1)"

text \<open>
  One pass through lines 176-182, after the budget test: the value is \<^verbatim>\<open>len(fitvals)\<close>,
  which the loop adds to \<^verbatim>\<open>cevals\<close>.
\<close>

definition iteration ::
  "'s optimizer_class \<Rightarrow> (real list \<Rightarrow> 'a \<Rightarrow> error + real) \<Rightarrow> 'a \<Rightarrow> int option \<Rightarrow>
   's pyobject list \<Rightarrow> 's \<Rightarrow> (error + nat) \<times> 's" where
  "iteration m objective_fct args verb_disp callback self =
     (case ask_method m self of
        (Inl e, s1) \<Rightarrow> (Inl e, s1)
      | (Inr X, s1) \<Rightarrow>
          (case evaluate objective_fct args X of
             Inl e \<Rightarrow> (Inl e, s1)
           | Inr fitvals \<Rightarrow>
               (case tell_method m X fitvals s1 of
                  (Inl e, s2) \<Rightarrow> (Inl e, s2)
                | (Inr u, s2) \<Rightarrow>
                    (case disp_method m verb_disp s2 of
                       (Inl e, s3) \<Rightarrow> (Inl e, s3)
                     | (Inr u, s3) \<Rightarrow>
                         (case run_callbacks callback s3 of
                            (Inl e, s4) \<Rightarrow> (Inl e, s4)
                          | (Inr u, s4) \<Rightarrow> (Inr (length fitvals), s4))))))"

text \<open>
  \<^verbatim>\<open>citer >= (iterations if iterations else np.inf)\<close>: the conditional expression tests
  the truth value of \<^verbatim>\<open>iterations\<close>, so \<^verbatim>\<open>None\<close> and \<open>0\<close> both give infinity.
\<close>

definition iterations_reached :: "int option \<Rightarrow> nat \<Rightarrow> bool" where
  "iterations_reached iterations citer =
     (case iterations of
        None \<Rightarrow> False
      | Some n \<Rightarrow> if n \<noteq> 0 then n \<le> int citer else False)"

text \<open>
  The \<^verbatim>\<open>while\<close> loop, lines 170-182. It leaves either through \<^verbatim>\<open>return self\<close> inside
  the body or because its condition is false; the value carries \<^verbatim>\<open>citer\<close> and
  \<^verbatim>\<open>cevals\<close> at that moment. The loop need not end (\<^verbatim>\<open>stop()\<close> may stay empty with no
  budget set), so each test of the condition takes one unit of fuel and \<open>None\<close> is
  "still running".
\<close>

datatype loop_exit = Returned_self | Condition_false

fun optimize_loop ::
  "nat \<Rightarrow> 's optimizer_class \<Rightarrow> (real list \<Rightarrow> 'a \<Rightarrow> error + real) \<Rightarrow> real \<Rightarrow> int option \<Rightarrow> int \<Rightarrow>
   'a \<Rightarrow> int option \<Rightarrow> 's pyobject list \<Rightarrow> nat \<Rightarrow> nat \<Rightarrow> 's \<Rightarrow>
   ((error + loop_exit \<times> nat \<times> nat) \<times> 's) option" where
  "optimize_loop 0 m objective_fct maxfun iterations min_iterations args verb_disp callback
     citer cevals self = None"
| "optimize_loop (Suc fuel) m objective_fct maxfun iterations min_iterations args verb_disp callback
     citer cevals self =
     (case stop_method m self of
        (Inl e, s1) \<Rightarrow> Some (Inl e, s1)
      | (Inr reasons, s1) \<Rightarrow>
          if reasons = [] \<or> int citer < min_iterations then
            if maxfun \<le> real cevals \<or> iterations_reached iterations citer then
              Some (Inr (Returned_self, citer, cevals), s1)
            else
              (case iteration m objective_fct args verb_disp callback s1 of
                 (Inl e, s2) \<Rightarrow> Some (Inl e, s2)
               | (Inr n, s2) \<Rightarrow>
                   optimize_loop fuel m objective_fct maxfun iterations min_iterations args
                     verb_disp callback (citer + 1) (cevals + n) s2)
          else Some (Inr (Condition_false, citer, cevals), s1))"

text \<open>\<^verbatim>\<open>seq[i]\<close> on a list: \<^verbatim>\<open>IndexError\<close> past the end.\<close>

definition getitem :: "'b list \<Rightarrow> nat \<Rightarrow> error + 'b" where
  "getitem xs i = (if i < length xs then Inr (xs ! i) else Inl IndexError)"

text \<open>The block under \<^verbatim>\<open>if verb_disp:\<close>, lines 187-191, with the lines it prints.\<close>

definition final_output :: "'s optimizer_class \<Rightarrow> 's \<Rightarrow> (error + unit) \<times> 's \<times> printed list" where
  "final_output m self =
     (case disp_method m (Some 1) self of
        (Inl e, s1) \<Rightarrow> (Inl e, s1, [])
      | (Inr u, s1) \<Rightarrow>
          (case stop_method m s1 of
             (Inl e, s2) \<Rightarrow> (Inl e, s2, [])
           | (Inr reasons, s2) \<Rightarrow>
               (case result_property m s2 of
                  (Inl e, s3) \<Rightarrow> (Inl e, s3, [Termination_by reasons])
                | (Inr r1, s3) \<Rightarrow>
                    (case getitem r1 1 of
                       Inl e \<Rightarrow> (Inl e, s3, [Termination_by reasons])
                     | Inr f \<Rightarrow>
                         (case result_property m s3 of
                            (Inl e, s4) \<Rightarrow> (Inl e, s4, [Termination_by reasons, Best_f_value f])
                          | (Inr r0, s4) \<Rightarrow>
                              (case getitem r0 0 of
                                 Inl e \<Rightarrow> (Inl e, s4, [Termination_by reasons, Best_f_value f])
                               | Inr x \<Rightarrow>
                                   (Inr (), s4,
                                    [Termination_by reasons, Best_f_value f, Solution x])))))))"

text \<open>
  \<^verbatim>\<open>optimize\<close>, lines 165-193. \<open>Inr ()\<close> is \<^verbatim>\<open>return self\<close>, the object being the state
  returned beside it; the list is what \<open>optimize\<close> itself printed. \<^verbatim>\<open>verb_disp\<close> is
  \<^verbatim>\<open>None\<close> or a number, true when a number other than \<open>0\<close>.
\<close>

definition optimize ::
  "nat \<Rightarrow> 's optimizer_class \<Rightarrow> (real list \<Rightarrow> 'a \<Rightarrow> error + real) \<Rightarrow> real \<Rightarrow> int option \<Rightarrow> int \<Rightarrow>
   'a \<Rightarrow> int option \<Rightarrow> 's callback_argument \<Rightarrow> 's \<Rightarrow> ((error + unit) \<times> 's \<times> printed list) option" where
  "optimize fuel m objective_fct maxfun iterations min_iterations args verb_disp callback self =
     (if \<not> (case iterations of None \<Rightarrow> True | Some n \<Rightarrow> min_iterations \<le> n)
      then Some (Inl AssertionError, self, [])
      else
        (case prepare_callback_list m callback self of
           Inl e \<Rightarrow> Some (Inl e, self, [])
         | Inr cs \<Rightarrow>
             (case optimize_loop fuel m objective_fct maxfun iterations min_iterations args
                     verb_disp cs 0 0 self of
                None \<Rightarrow> None
              | Some (Inl e, s1) \<Rightarrow> Some (Inl e, s1, [])
              | Some (Inr (Returned_self, citer, cevals), s1) \<Rightarrow> Some (Inr (), s1, [])
              | Some (Inr (Condition_false, citer, cevals), s1) \<Rightarrow>
                  (case force_final_logging m s1 of
                     (Inl e, s2, out) \<Rightarrow> Some (Inl e, s2, out)
                   | (Inr u, s2, out) \<Rightarrow>
                       if (case verb_disp of None \<Rightarrow> False | Some v \<Rightarrow> v \<noteq> 0) then
                         (case final_output m s2 of
                            (r, s3, out') \<Rightarrow> Some (r, s3, out @ out'))
                       else Some (Inr (), s2, out)))))"

section \<open>The documented formulas and the objects used as examples\<close>

text \<open>
  The formulas as the documentation words them: \<open>mueff\<close> is the square of the sum of
  the positive weights over the sum of their squares; \<open>c1\<close> is
  \<open>min(1, lam/6) * 2 / ((dimension + 1.3)^2 + mueff)\<close> with \<open>lam\<close> the number of weights;
  \<open>cmu\<close> is \<open>min(1 - c1, 2 * (mueff - 2 + 1/mueff) / ((dimension + 2)^2 + 2 * mueff / 2))\<close>.
\<close>

definition mueff_spec :: "real list \<Rightarrow> real" where
  "mueff_spec ws = (sum_list (filter (\<lambda>w. 0 < w) ws))\<^sup>2 / sum_list (map (\<lambda>w. w\<^sup>2) (filter (\<lambda>w. 0 < w) ws))"

definition c1_spec :: "int \<Rightarrow> real list \<Rightarrow> real" where
  "c1_spec n ws = min 1 (real (length ws) / 6) * 2 / ((real_of_int n + 13 / 10)\<^sup>2 + mueff_spec ws)"

definition cmu_spec :: "int \<Rightarrow> real list \<Rightarrow> real" where
  "cmu_spec n ws =
     min (1 - c1_spec n ws)
         (2 * (mueff_spec ws - 2 + 1 / mueff_spec ws) /
          ((real_of_int n + 2)\<^sup>2 + 2 * mueff_spec ws / 2))"

text \<open>
  The memo test of \<open>parameters\<close> succeeds: weights are stored, they compare equal to
  the argument, and a mapping is stored.
\<close>

definition memo_hit :: "sampler \<Rightarrow> real list \<Rightarrow> bool" where
  "memo_hit self ws =
     (case weights self of
        None \<Rightarrow> False
      | Some stored \<Rightarrow> np_all_eq stored ws \<and> parameters_cache self \<noteq> None)"

text \<open>A sampler of the given dimension on which \<open>parameters\<close> has not been called.\<close>

definition fresh_sampler :: "int \<Rightarrow> sampler" where
  "fresh_sampler n = \<lparr>dimension = n, weights = None, parameters_cache = None\<rparr>"

text \<open>
  A stub optimizer, used where a statement needs a concrete object. It counts the calls
  of \<^verbatim>\<open>tell\<close> in \<open>told\<close> and keeps in \<open>calls\<close> the names of the callbacks and logger
  calls made on it, in order. \<^verbatim>\<open>ask()\<close> returns the two candidates \<open>[1, 0]\<close> and
  \<open>[0, 1]\<close>; \<^verbatim>\<open>stop()\<close> is non-empty once \<open>stop_after\<close> calls of \<^verbatim>\<open>tell\<close> have been made.
  \<open>stub_logger\<close> records how \<^verbatim>\<open>add\<close> was called; \<open>logger_without_add\<close> has no \<^verbatim>\<open>add\<close>;
  the \<^verbatim>\<open>add\<close> of \<open>logger_plain_add\<close> takes no keyword \<^verbatim>\<open>modulo\<close>.
\<close>

record stub =
  told :: nat
  calls :: "string list"

definition record_call :: "string \<Rightarrow> stub \<Rightarrow> (error + unit) \<times> stub" where
  "record_call name self = (Inr (), self\<lparr>calls := calls self @ [name]\<rparr>)"

definition stub_logger :: "stub data_logger" where
  "stub_logger =
     \<lparr>logger_modulo = Some 10,
      logger_add = Some (Add_with_modulo (\<lambda>modulo_arg.
        record_call (case modulo_arg of
                       None \<Rightarrow> ''add''
                     | Some v \<Rightarrow> if v = 1 then ''add(modulo=1)'' else ''add(modulo=0)'')))\<rparr>"

definition stub_optimizer :: "nat \<Rightarrow> stub logger_ref \<Rightarrow> stub optimizer_class" where
  "stub_optimizer stop_after lg =
     \<lparr>stop_method = (\<lambda>self. (Inr (if stop_after \<le> told self then [(''maxiter'', real stop_after)] else []), self)),
      ask_method = (\<lambda>self. (Inr [[1, 0], [0, 1]], self)),
      tell_method = (\<lambda>X fitvals self. (Inr (), self\<lparr>told := told self + 1\<rparr>)),
      disp_method = (\<lambda>modulo_arg self. (Inr (), self)),
      result_property = (\<lambda>self. (Inr [Vector [1, 0], Scalar 1], self)),
      logger_attribute = (\<lambda>self. lg)\<rparr>"

definition sphere :: "real list \<Rightarrow> unit \<Rightarrow> error + real" where
  "sphere x args = Inr (sum_list (map (\<lambda>v. v * v) x))"

definition stub0 :: stub where "stub0 = \<lparr>told = 0, calls = []\<rparr>"

definition logger_without_add :: "stub data_logger" where
  "logger_without_add = \<lparr>logger_modulo = None, logger_add = None\<rparr>"

definition logger_plain_add :: "stub data_logger" where
  "logger_plain_add =
     \<lparr>logger_modulo = Some 0, logger_add = Some (Add_without_modulo (record_call ''add''))\<rparr>"

section \<open>Properties of the sampler\<close>

lemma sum_list_positive: "xs \<noteq> [] \<Longrightarrow> list_all (\<lambda>x. 0 < x) xs \<Longrightarrow> 0 < sum_list (xs :: real list)"
proof (induction xs)
  case Nil
  then show ?case by simp
next
  case (Cons a xs)
  show ?case
  proof (cases "xs = []")
    case True
    with Cons.prems show ?thesis by simp
  next
    case False
    with Cons have "0 < sum_list xs" by simp
    moreover from Cons.prems have "0 < a" by simp
    ultimately show ?thesis by simp
  qed
qed

lemma positive_weights_nonempty: "list_ex (\<lambda>w. 0 < w) ws \<Longrightarrow> positive_weights ws \<noteq> []"
  by (auto simp: positive_weights_def list_ex_iff filter_empty_conv)

lemma positive_weights_all: "list_all (\<lambda>x. 0 < x) (positive_weights ws)"
  by (simp add: positive_weights_def list_all_iff)

lemma mueff_denominator_pos: "list_ex (\<lambda>w. 0 < w) ws \<Longrightarrow> 0 < mueff_denominator ws"
  unfolding mueff_denominator_def
  using positive_weights_nonempty[of ws] positive_weights_all[of ws]
  by (intro sum_list_positive) (auto simp: list_all_iff)

lemma mueff_numerator_pos: "list_ex (\<lambda>w. 0 < w) ws \<Longrightarrow> 0 < mueff_numerator ws"
  unfolding mueff_numerator_def
  using sum_list_positive[OF positive_weights_nonempty positive_weights_all, of ws]
  by simp

lemma mueff_pos: "list_ex (\<lambda>w. 0 < w) ws \<Longrightarrow> 0 < mueff_numerator ws / mueff_denominator ws"
  by (simp add: mueff_numerator_pos mueff_denominator_pos)

lemma c1_denominator_pos: "0 < mueff \<Longrightarrow> 0 < c1_denominator n mueff"
  unfolding c1_denominator_def by (simp add: add_nonneg_pos)

lemma cmu_denominator_pos: "0 < mueff \<Longrightarrow> 0 < cmu_denominator n mueff"
  unfolding cmu_denominator_def by (simp add: add_nonneg_pos)

lemma mueff_spec_eq: "mueff_spec ws = mueff_numerator ws / mueff_denominator ws"
  by (simp add: mueff_spec_def mueff_numerator_def mueff_denominator_def positive_weights_def)

lemma parameters_miss:
  assumes miss: "\<not> memo_hit self ws" and pos: "list_ex (\<lambda>w. 0 < w) ws"
  shows "parameters ws self =
     (Inr [(''c1'', c1_spec (dimension self) ws), (''cmu'', cmu_spec (dimension self) ws)],
      self\<lparr>weights := Some ws,
           parameters_cache :=
             Some [(''c1'', c1_spec (dimension self) ws), (''cmu'', cmu_spec (dimension self) ws)]\<rparr>)"
proof -
  define mu where "mu = mueff_numerator ws / mueff_denominator ws"
  have mu: "0 < mu" unfolding mu_def by (rule mueff_pos[OF pos])
  have spec: "mueff_spec ws = mu" by (simp add: mueff_spec_eq mu_def)
  have d0: "py_div (mueff_numerator ws) (mueff_denominator ws) = Inr mu"
    using mueff_denominator_pos[OF pos] by (simp add: py_div_def mu_def)
  have d1: "py_div a (c1_denominator n mu) = Inr (a / c1_denominator n mu)" for a n
    using c1_denominator_pos[OF mu, of n] by (simp add: py_div_def)
  have d2: "py_div 1 mu = Inr (1 / mu)"
    using mu by (simp add: py_div_def)
  have d3: "py_div a (cmu_denominator n mu) = Inr (a / cmu_denominator n mu)" for a n
    using cmu_denominator_pos[OF mu, of n] by (simp add: py_div_def)
  have look: "(case weights self of None \<Rightarrow> None
               | Some stored \<Rightarrow> if np_all_eq stored ws then parameters_cache self else None) = None"
    using miss by (auto simp: memo_hit_def split: option.splits)
  have c1: "c1_spec n ws = min 1 (real (length ws) / 6) * 2 / c1_denominator n mu" for n
    by (simp only: c1_spec_def spec c1_denominator_def)
  have cmu: "cmu_spec n ws =
      min (1 - min 1 (real (length ws) / 6) * 2 / c1_denominator n mu)
          (2 * (mu - 2 + 1 / mu) / cmu_denominator n mu)" for n
    by (simp only: cmu_spec_def c1 spec cmu_denominator_def)
  show ?thesis
    unfolding parameters_def look Let_def c1 cmu
    by (simp only: d0 d1 d2 d3 option.case sum.case)
qed

lemma parameters_hit:
  assumes "weights self = Some stored" "np_all_eq stored ws" "parameters_cache self = Some p"
  shows "parameters ws self = (Inr p, self)"
  using assms by (simp add: parameters_def)

lemma np_all_eq_same_length: "length a = length b \<Longrightarrow> np_all_eq a b = (a = b)"
  unfolding np_all_eq_def
  by (induction a b rule: list_induct2) auto


lemma has_positive_iff: "(\<exists>w\<in>set ws. 0 < w) = list_ex (\<lambda>w. 0 < w) ws"
  by (simp add: list_ex_iff)



lemma np_all_eq_refl: "np_all_eq ws ws"
  by (simp add: np_all_eq_same_length)

lemma parameters_twice:
  assumes "parameters ws self = (Inr p, self1)"
  shows "parameters ws self1 = (Inr p, self1)"
proof (cases "memo_hit self ws")
  case True
  then obtain stored q where h: "weights self = Some stored" "np_all_eq stored ws"
      "parameters_cache self = Some q"
    by (auto simp: memo_hit_def split: option.splits)
  with assms have "self1 = self" "q = p" by (simp_all add: parameters_hit)
  with h show ?thesis by (simp add: parameters_hit)
next
  case False
  have look: "(case weights self of None \<Rightarrow> None
               | Some stored \<Rightarrow> if np_all_eq stored ws then parameters_cache self else None) = None"
    using False by (auto simp: memo_hit_def split: option.splits)
  from assms have "weights self1 = Some ws \<and> parameters_cache self1 = Some p"
    unfolding parameters_def look
    by (auto simp: Let_def split: sum.splits)
  then show ?thesis by (simp add: parameters_hit np_all_eq_refl)
qed

lemma parameters_recomputes:
  assumes "weights self = Some stored" "length stored = length ws" "stored \<noteq> ws"
      "\<exists>w\<in>set ws. 0 < w"
  shows "parameters ws self =
     (Inr [(''c1'', c1_spec (dimension self) ws), (''cmu'', cmu_spec (dimension self) ws)],
      self\<lparr>weights := Some ws,
           parameters_cache :=
             Some [(''c1'', c1_spec (dimension self) ws), (''cmu'', cmu_spec (dimension self) ws)]\<rparr>)"
proof -
  have "\<not> memo_hit self ws"
    using assms(1-3) by (simp add: memo_hit_def np_all_eq_same_length)
  then show ?thesis
    using assms(4) by (intro parameters_miss) (simp_all add: has_positive_iff)
qed











text \<open>
  Claim C9. The claim says that \<open>update\<close> on the base class rejects
  \<open>len(vectors) \<noteq> len(weights)\<close> with a shape-mismatch error and checks the lengths
  first when they agree. The base class has no such check: with one vector and three
  weights the call raises \<^verbatim>\<open>NotImplementedError\<close>, exactly as it does with one vector
  and one weight.
\<close>

theorem update_shape_check_counterexample:
  "length [[1, 2 :: real]] \<noteq> length [1, 2, 3 :: real] \<and>
   fst (update [[1, 2]] [1, 2, 3] (fresh_sampler 2)) = Inl NotImplementedError \<and>
   fst (update [[1, 2]] [1, 2, 3] (fresh_sampler 2)) \<noteq> Inl ValueError \<and>
   length [[1, 2 :: real]] = length [3 :: real] \<and>
   update [[1, 2]] [3] (fresh_sampler 2) = update [[1, 2]] [1, 2, 3] (fresh_sampler 2)"
  by (simp add: update_def)

text \<open>
  Claim C9, as the code has it: \<open>update\<close> on the base class raises
  \<^verbatim>\<open>NotImplementedError\<close> for every pair of arguments, whatever their lengths, and leaves
  the object as it was.
\<close>

theorem update_unimplemented:
  "update vectors ws self = (Inl NotImplementedError, self)"
  by (simp add: update_def)

text \<open>
  Claim C4. The claim gives the formulas for every weights sequence with a positive
  entry. On a sampler of dimension 2, after \<open>parameters([2, 2])\<close> the call
  \<open>parameters([2])\<close> compares the stored \<open>[2, 2]\<close> with \<open>[2]\<close> by broadcasting, finds them
  equal and returns the mapping of \<open>[2, 2]\<close> (\<open>c1 = 200/3867\<close>, \<open>cmu = 1/18\<close>), while the
  formulas for \<open>[2]\<close> give \<open>c1 = 100/3567\<close> and \<open>cmu = 0\<close>, which is also what the call
  returns on a sampler that stores nothing. (Lemma \<open>parameters_miss\<close> above: whenever the
  memo test fails, the formulas are what is returned.)
\<close>

theorem parameters_formulas_broadcast_hit:
  "parameters [2, 2] (fresh_sampler 2) =
     (Inr [(''c1'', 200 / 3867), (''cmu'', 1 / 18)],
      \<lparr>dimension = 2, weights = Some [2, 2],
       parameters_cache = Some [(''c1'', 200 / 3867), (''cmu'', 1 / 18)]\<rparr>) \<and>
   fst (parameters [2] (snd (parameters [2, 2] (fresh_sampler 2)))) =
     Inr [(''c1'', 200 / 3867), (''cmu'', 1 / 18)] \<and>
   c1_spec 2 [2] = 100 / 3567 \<and> cmu_spec 2 [2] = 0 \<and>
   fst (parameters [2] (fresh_sampler 2)) = Inr [(''c1'', 100 / 3567), (''cmu'', 0)]"
  by (simp add: parameters_def fresh_sampler_def np_all_eq_def py_div_def mueff_numerator_def
      mueff_denominator_def positive_weights_def c1_denominator_def cmu_denominator_def
      c1_spec_def cmu_spec_def mueff_spec_def power2_eq_square Let_def)

text \<open>
  Claim C5. The claim says that a weights array whose values differ from the stored
  ones is recomputed and replaces the stored mapping. On a sampler of dimension 2,
  after \<open>parameters([3])\<close> the call \<open>parameters([3, 3])\<close> compares \<open>[3]\<close> with \<open>[3, 3]\<close> by
  broadcasting, returns the mapping stored for \<open>[3]\<close> and leaves the stored weights
  \<open>[3]\<close> in place; on a sampler that stores nothing the same call computes a different
  mapping. (Lemmas \<open>parameters_twice\<close> and \<open>parameters_recomputes\<close> above: a repeated call
  returns the stored mapping, and stored weights of the same length with a different
  entry are recomputed.)
\<close>

theorem parameters_memo_broadcast_hit:
  "parameters [3, 3] (snd (parameters [3] (fresh_sampler 2))) =
     (Inr [(''c1'', 100 / 3567), (''cmu'', 0)],
      \<lparr>dimension = 2, weights = Some [3],
       parameters_cache = Some [(''c1'', 100 / 3567), (''cmu'', 0)]\<rparr>) \<and>
   parameters [3, 3] (fresh_sampler 2) =
     (Inr [(''c1'', 200 / 3867), (''cmu'', 1 / 18)],
      \<lparr>dimension = 2, weights = Some [3, 3],
       parameters_cache = Some [(''c1'', 200 / 3867), (''cmu'', 1 / 18)]\<rparr>)"
  by (simp add: parameters_def fresh_sampler_def np_all_eq_def py_div_def mueff_numerator_def
      mueff_denominator_def positive_weights_def c1_denominator_def cmu_denominator_def
      power2_eq_square Let_def)

section \<open>Properties of the base class\<close>

text \<open>
  Claim C8. The claim says that \<open>countiter\<close> is set to \<open>0\<close> when the optimizer is
  initialised. In the base class \<open>initialize\<close> raises before the assignment
  \<^verbatim>\<open>self.countiter = 0\<close>: constructing an object with \<open>xstart = [0, 0]\<close> raises
  \<^verbatim>\<open>NotImplementedError\<close> and leaves it without the attribute, so that \<open>countiter\<close> is
  not \<open>0\<close> and a following \<^verbatim>\<open>tell\<close> raises \<^verbatim>\<open>AttributeError\<close>.
\<close>

theorem init_leaves_countiter_unset:
  "init [0, 0] [] =
     (Inl NotImplementedError,
      \<lparr>xstart = [0, 0], more_kwargs = [], countiter = None, xcurrent = None\<rparr>) \<and>
   countiter (snd (init [0, 0] [])) \<noteq> Some 0 \<and>
   fst (tell [] [] (snd (init [0, 0] []))) = Inl AttributeError"
  by (simp add: init_def initialize_def tell_def)

text \<open>
  Claim C8, as the code has it. In the base class \<open>initialize\<close> raises
  \<^verbatim>\<open>NotImplementedError\<close> and changes nothing, so the constructor leaves \<open>countiter\<close>
  unset; \<open>ask\<close> raises and changes nothing, \<open>countiter\<close> included; \<open>tell\<close> on an object
  whose \<open>countiter\<close> is \<open>n\<close> stores \<open>n + 1\<close>, once, and then raises
  \<^verbatim>\<open>NotImplementedError\<close>.
\<close>

theorem base_class_countiter:
  "initialize self = (Inl NotImplementedError, self) \<and>
   countiter (snd (init x0 kwargs)) = None \<and>
   ask self = (Inl NotImplementedError, self) \<and>
   tell X fitvals (self\<lparr>countiter := Some n\<rparr>) =
     (Inl NotImplementedError, self\<lparr>countiter := Some (n + 1)\<rparr>)"
  by (simp add: init_def initialize_def ask_def tell_def)

section \<open>Properties of the loop\<close>

lemmas stub_defs = stub_optimizer_def stub_logger_def stub0_def record_call_def sphere_def
lemmas run_defs = optimize_def prepare_callback_list_def all_callable_def add_as_callback_def
  force_final_logging_def final_output_def getitem_def iteration_def iterations_reached_def

lemma evaluate_length: "evaluate f a X = Inr vs \<Longrightarrow> length vs = length X"
  by (induction X arbitrary: vs) (auto split: sum.splits)

lemma iteration_count:
  assumes "iteration m f a v cbs s = (Inr n, s')"
  shows "\<exists>X s1. ask_method m s = (Inr X, s1) \<and> n = length X"
  using assms unfolding iteration_def
  by (auto split: prod.splits sum.splits dest: evaluate_length)

lemma optimize_loop_Suc:
  "optimize_loop (Suc fuel) m f maxfun its min_it a v cbs citer cevals s =
     (case stop_method m s of
        (Inl e, s1) \<Rightarrow> Some (Inl e, s1)
      | (Inr reasons, s1) \<Rightarrow>
          if reasons = [] \<or> int citer < min_it then
            if maxfun \<le> real cevals \<or> iterations_reached its citer then
              Some (Inr (Returned_self, citer, cevals), s1)
            else
              (case iteration m f a v cbs s1 of
                 (Inl e, s2) \<Rightarrow> Some (Inl e, s2)
               | (Inr n, s2) \<Rightarrow>
                   optimize_loop fuel m f maxfun its min_it a v cbs (citer + 1) (cevals + n) s2)
          else Some (Inr (Condition_false, citer, cevals), s1))"
  by simp


lemma loop_evals_bound:
  assumes batch: "\<And>s X s1. ask_method m s = (Inr X, s1) \<Longrightarrow> length X \<le> k"
  shows "optimize_loop fuel m f maxfun its min_it a v cbs citer cevals s = Some (Inr (ex, citer', cevals'), s') \<Longrightarrow>
     cevals' = cevals \<or> real cevals' < maxfun + real k"
proof (induction fuel arbitrary: citer cevals s)
  case 0
  then show ?case by simp
next
  case (Suc fuel)
  obtain r s1 where st: "stop_method m s = (r, s1)" by (cases "stop_method m s")
  show ?case
  proof (cases r)
    case (Inl e)
    with Suc.prems st show ?thesis by simp
  next
    case (Inr reasons)
    note r = this
    show ?thesis
    proof (cases "(reasons = [] \<or> int citer < min_it) \<and> \<not> (maxfun \<le> real cevals \<or> iterations_reached its citer)")
      case False
      with Suc.prems st r show ?thesis by (auto split: if_splits)
    next
      case True
      obtain q s2 where it: "iteration m f a v cbs s1 = (q, s2)" by (cases "iteration m f a v cbs s1")
      show ?thesis
      proof (cases q)
        case (Inl e)
        with Suc.prems st r True it show ?thesis by simp
      next
        case (Inr n)
        with Suc.prems st r True it
        have rec: "optimize_loop fuel m f maxfun its min_it a v cbs (citer + 1) (cevals + n) s2 =
                  Some (Inr (ex, citer', cevals'), s')" by simp
        from it Inr iteration_count[of m f a v cbs s1 n s2] batch have "n \<le> k" by auto
        moreover from True have "real cevals < maxfun" by simp
        ultimately have "real (cevals + n) < maxfun + real k" by simp
        with Suc.IH[OF rec] show ?thesis by auto
      qed
    qed
  qed
qed

lemma loop_iterations_bound:
  assumes "its = Some n" "n \<noteq> 0"
  shows "optimize_loop fuel m f maxfun its min_it a v cbs citer cevals s = Some (Inr (ex, citer', cevals'), s') \<Longrightarrow>
     int citer' \<le> max (int citer) n"
proof (induction fuel arbitrary: citer cevals s)
  case 0
  then show ?case by simp
next
  case (Suc fuel)
  obtain r s1 where st: "stop_method m s = (r, s1)" by (cases "stop_method m s")
  show ?case
  proof (cases r)
    case (Inl e)
    with Suc.prems st show ?thesis by simp
  next
    case (Inr reasons)
    note r = this
    show ?thesis
    proof (cases "(reasons = [] \<or> int citer < min_it) \<and> \<not> (maxfun \<le> real cevals \<or> iterations_reached its citer)")
      case False
      with Suc.prems st r show ?thesis by (auto split: if_splits)
    next
      case True
      obtain q s2 where it: "iteration m f a v cbs s1 = (q, s2)" by (cases "iteration m f a v cbs s1")
      show ?thesis
      proof (cases q)
        case (Inl e)
        with Suc.prems st r True it show ?thesis by simp
      next
        case (Inr k)
        with Suc.prems st r True it
        have rec: "optimize_loop fuel m f maxfun its min_it a v cbs (citer + 1) (cevals + k) s2 =
                  Some (Inr (ex, citer', cevals'), s')" by simp
        from True assms have "int citer < n" by (simp add: iterations_reached_def)
        with Suc.IH[OF rec] show ?thesis by auto
      qed
    qed
  qed
qed

lemma loop_zero_budget:
  assumes "maxfun \<le> 0" "stop_method m s = (Inr reasons, s1)"
  shows "optimize_loop (Suc fuel) m f maxfun its min_it a v cbs 0 0 s =
           Some (Inr (if reasons = [] \<or> 0 < min_it then Returned_self else Condition_false, 0, 0), s1)"
  using assms by simp

lemma loop_budget_first:
  assumes "stop_method m s = (Inr reasons, s1)" "maxfun \<le> real cevals" "int citer < min_it"
  shows "optimize_loop (Suc fuel) m f maxfun its min_it a v cbs citer cevals s =
           Some (Inr (Returned_self, citer, cevals), s1)"
  using assms by simp

lemma loop_min_iterations_example:
  "optimize_loop 10 (stub_optimizer 0 Logger_None) sphere (10 ^ 99) None 3 () None [] 0 0 stub0 =
     Some (Inr (Condition_false, 3, 6), \<lparr>told = 3, calls = []\<rparr>)"
  by (simp add: run_defs stub_defs eval_nat_numeral)






section \<open>Properties of optimize\<close>




text \<open>
  Claim C2. The claim says that \<open>optimize\<close> never performs more than \<open>maxfun\<close>
  evaluations. On the stub, whose \<^verbatim>\<open>ask()\<close> returns two candidates, \<open>maxfun = 1\<close> allows
  the first iteration (\<open>0 < 1\<close>), which evaluates both: the loop returns with
  \<open>cevals = 2\<close>.
\<close>

theorem optimize_exceeds_maxfun:
  "optimize_loop 10 (stub_optimizer 3 Logger_None) sphere 1 None 1 () None [] 0 0 stub0 =
     Some (Inr (Returned_self, 1, 2), \<lparr>told = 1, calls = []\<rparr>) \<and>
   \<not> real 2 \<le> 1 \<and>
   optimize 10 (stub_optimizer 3 Logger_None) sphere 1 None 1 () None Callback_None stub0 =
     Some (Inr (), \<lparr>told = 1, calls = []\<rparr>, [])"
  by (simp add: run_defs stub_defs eval_nat_numeral)

text \<open>
  Claim C2, as the code has it. (1) No iteration starts once \<open>cevals \<ge> maxfun\<close>, so
  when every \<^verbatim>\<open>ask()\<close> returns at most \<open>k\<close> candidates a loop that returns has
  \<open>cevals = 0\<close> or \<open>cevals < maxfun + k\<close>. (2) With \<open>maxfun \<le> 0\<close> the loop ends at its
  first test, after the one call of \<^verbatim>\<open>stop()\<close>, with \<open>citer = cevals = 0\<close>, whatever
  \<^verbatim>\<open>ask\<close>, \<^verbatim>\<open>tell\<close> and the callbacks are; (3) and then, when \<^verbatim>\<open>stop()\<close> is empty or
  \<open>min_iterations > 0\<close>, \<open>optimize\<close> returns \<^verbatim>\<open>self\<close> in the state that call left. (4) The
  budget test is made also while \<open>citer < min_iterations\<close>.
\<close>

theorem optimize_evaluation_budget:
  "((\<forall>s X s1. ask_method m s = (Inr X, s1) \<longrightarrow> length X \<le> k) \<and>
    optimize_loop fuel m f maxfun its min_it a v cbs 0 0 self = Some (Inr (ex, citer, cevals), s')
      \<longrightarrow> cevals = 0 \<or> real cevals < maxfun + real k) \<and>
   (maxfun \<le> 0 \<and> stop_method m self = (Inr reasons, s1)
      \<longrightarrow> optimize_loop (Suc fuel) m f maxfun its min_it a v cbs 0 0 self =
            Some (Inr (if reasons = [] \<or> 0 < min_it then Returned_self else Condition_false, 0, 0), s1)) \<and>
   (maxfun \<le> 0 \<and> stop_method m self = (Inr reasons, s1) \<and> (reasons = [] \<or> 0 < min_it) \<and>
    (case its of None \<Rightarrow> True | Some n \<Rightarrow> min_it \<le> n) \<and> prepare_callback_list m cb self = Inr cbs
      \<longrightarrow> optimize (Suc fuel) m f maxfun its min_it a v cb self = Some (Inr (), s1, [])) \<and>
   (stop_method m self = (Inr reasons, s1) \<and> maxfun \<le> real cevals0 \<and> int citer0 < min_it
      \<longrightarrow> optimize_loop (Suc fuel) m f maxfun its min_it a v cbs citer0 cevals0 self =
            Some (Inr (Returned_self, citer0, cevals0), s1))"
proof (intro conjI impI)
  assume h: "(\<forall>s X s1. ask_method m s = (Inr X, s1) \<longrightarrow> length X \<le> k) \<and>
    optimize_loop fuel m f maxfun its min_it a v cbs 0 0 self = Some (Inr (ex, citer, cevals), s')"
  then have batch: "\<And>s X s1. ask_method m s = (Inr X, s1) \<Longrightarrow> length X \<le> k"
    and lp: "optimize_loop fuel m f maxfun its min_it a v cbs 0 0 self = Some (Inr (ex, citer, cevals), s')"
    by blast+
  from loop_evals_bound[OF batch lp]
  show "cevals = 0 \<or> real cevals < maxfun + real k" by simp
next
  assume "maxfun \<le> 0 \<and> stop_method m self = (Inr reasons, s1)"
  then show "optimize_loop (Suc fuel) m f maxfun its min_it a v cbs 0 0 self =
            Some (Inr (if reasons = [] \<or> 0 < min_it then Returned_self else Condition_false, 0, 0), s1)"
    by (simp add: loop_zero_budget)
next
  assume h: "maxfun \<le> 0 \<and> stop_method m self = (Inr reasons, s1) \<and> (reasons = [] \<or> 0 < min_it) \<and>
    (case its of None \<Rightarrow> True | Some n \<Rightarrow> min_it \<le> n) \<and> prepare_callback_list m cb self = Inr cbs"
  then have "optimize_loop (Suc fuel) m f maxfun its min_it a v cbs 0 0 self =
            Some (Inr (Returned_self, 0, 0), s1)"
    by (simp add: loop_zero_budget)
  with h show "optimize (Suc fuel) m f maxfun its min_it a v cb self = Some (Inr (), s1, [])"
    unfolding optimize_def by (simp del: optimize_loop.simps)
next
  assume "stop_method m self = (Inr reasons, s1) \<and> maxfun \<le> real cevals0 \<and> int citer0 < min_it"
  then show "optimize_loop (Suc fuel) m f maxfun its min_it a v cbs citer0 cevals0 self =
            Some (Inr (Returned_self, citer0, cevals0), s1)"
    by (simp add: loop_budget_first)
qed

theorem optimize_evaluation_budget_witness:
  "optimize_loop 10 (stub_optimizer 3 Logger_None) sphere 1 None 1 () None [] 0 0 stub0 =
     Some (Inr (Returned_self, 1, 2), \<lparr>told = 1, calls = []\<rparr>) \<and>
   ((2 :: nat) = 0 \<or> real 2 < 1 + real 2) \<and>
   optimize_loop (Suc 0) (stub_optimizer 3 Logger_None) sphere 0 None 1 () None [] 0 0 stub0 =
     Some (Inr (Returned_self, 0, 0), stub0) \<and>
   optimize (Suc 0) (stub_optimizer 3 Logger_None) sphere 0 None 1 () None Callback_None stub0 =
     Some (Inr (), stub0, []) \<and>
   optimize_loop (Suc 0) (stub_optimizer 0 Logger_None) sphere 2 None 5 () None [] 1 2 stub0 =
     Some (Inr (Returned_self, 1, 2), stub0)"
proof -
  let ?m = "stub_optimizer 3 Logger_None"
  have ask: "\<forall>s X s1. ask_method ?m s = (Inr X, s1) \<longrightarrow> length X \<le> 2"
    by (auto simp: stub_defs)
  have lp: "optimize_loop 10 ?m sphere 1 None 1 () None [] 0 0 stub0 =
     Some (Inr (Returned_self, 1, 2), \<lparr>told = 1, calls = []\<rparr>)"
    by (simp add: run_defs stub_defs eval_nat_numeral)
  have st: "stop_method ?m stub0 = (Inr [], stub0)"
    by (simp add: stub_defs)
  have st0: "stop_method (stub_optimizer 0 Logger_None) stub0 = (Inr [(''maxiter'', 0)], stub0)"
    by (simp add: stub_defs)
  have prep: "prepare_callback_list ?m Callback_None stub0 = Inr []"
    by (simp add: run_defs stub_defs)
  have p1: "(2 :: nat) = 0 \<or> real 2 < 1 + real 2"
    by (rule optimize_evaluation_budget[THEN conjunct1, THEN mp, OF conjI[OF ask lp]])
  have p2: "optimize_loop (Suc 0) ?m sphere 0 None 1 () None [] 0 0 stub0 =
     Some (Inr (Returned_self, 0, 0), stub0)"
    using optimize_evaluation_budget[THEN conjunct2, THEN conjunct1, THEN mp,
        of 0 ?m stub0 "[]" stub0 0 sphere None 1 "()" None "[]"] st
    by simp
  have p3: "optimize (Suc 0) ?m sphere 0 None 1 () None Callback_None stub0 = Some (Inr (), stub0, [])"
    using optimize_evaluation_budget[THEN conjunct2, THEN conjunct2, THEN conjunct1, THEN mp,
        of 0 ?m stub0 "[]" stub0 1 None Callback_None "[]" 0 sphere "()" None] st prep
    by simp
  have p4: "optimize_loop (Suc 0) (stub_optimizer 0 Logger_None) sphere 2 None 5 () None [] 1 2 stub0 =
     Some (Inr (Returned_self, 1, 2), stub0)"
    using optimize_evaluation_budget[THEN conjunct2, THEN conjunct2, THEN conjunct2, THEN mp,
        of "stub_optimizer 0 Logger_None" stub0 "[(''maxiter'', 0)]" stub0 2 2 1 5 0 sphere None "()" None "[]"] st0
    by simp
  from lp p1 p2 p3 p4 show ?thesis by (intro conjI)
qed

text \<open>
  Claim C3. The claim says that \<open>optimize\<close> performs at most \<open>iterations\<close> iterations
  whenever \<open>iterations\<close> is set. With \<open>iterations = 0\<close> and \<open>min_iterations = 0\<close> (the
  assertion holds) the stub, whose \<^verbatim>\<open>stop()\<close> is non-empty after three calls of
  \<^verbatim>\<open>tell\<close>, runs three iterations: the test \<^verbatim>\<open>iterations if iterations else np.inf\<close>
  takes \<open>0\<close> for "not set". (Lemma \<open>loop_iterations_bound\<close> above: for a non-zero
  \<open>iterations\<close> the bound holds; lemma \<open>loop_exit_reason\<close>: a loop that ends on its
  condition has made at least \<open>min_iterations\<close> iterations.)
\<close>

theorem optimize_iterations_zero_unbounded:
  "optimize_loop 10 (stub_optimizer 3 Logger_None) sphere (10 ^ 99) (Some 0) 0 () None [] 0 0 stub0 =
     Some (Inr (Condition_false, 3, 6), \<lparr>told = 3, calls = []\<rparr>) \<and>
   optimize 10 (stub_optimizer 3 Logger_None) sphere (10 ^ 99) (Some 0) 0 () None Callback_None stub0 =
     Some (Inr (), \<lparr>told = 3, calls = []\<rparr>, [])"
  by (simp add: run_defs stub_defs eval_nat_numeral)



text \<open>
  Claim C7. The claim says that no logger-related exception leaves \<open>optimize\<close>. With
  the base class \<open>BaseDataLogger\<close> as logger, whose \<^verbatim>\<open>add\<close> accepts the keyword and
  raises \<^verbatim>\<open>NotImplementedError\<close>, the forced flush raises that exception, and so does
  \<open>optimize\<close> (here \<^verbatim>\<open>stop()\<close> is non-empty at once and \<open>min_iterations = 0\<close>, so the
  flush is the first call of \<^verbatim>\<open>add\<close>).
\<close>

theorem flush_exception_propagates:
  "force_final_logging (stub_optimizer 0 (Logger BaseDataLogger)) stub0 =
     (Inl NotImplementedError, stub0, []) \<and>
   optimize 10 (stub_optimizer 0 (Logger BaseDataLogger)) sphere (10 ^ 99) None 0 () None
       Callback_None stub0 =
     Some (Inl NotImplementedError, stub0, [])"
  by (simp add: run_defs stub_defs BaseDataLogger_def eval_nat_numeral)

text \<open>
  Claim C7, as the code has it, for an optimizer that has the attribute \<^verbatim>\<open>logger\<close>.
  When the logger is \<^verbatim>\<open>None\<close> the flush does nothing. When the logger has no \<^verbatim>\<open>add\<close>
  it does nothing either, and when \<^verbatim>\<open>add\<close> does not take the keyword \<^verbatim>\<open>modulo\<close> it
  prints the one diagnostic line; the object is unchanged in both cases. Otherwise
  \<^verbatim>\<open>add(self, modulo=...)\<close> is called, with \<open>1\<close> unless the logger's \<^verbatim>\<open>modulo\<close> is \<open>0\<close>: an
  \<^verbatim>\<open>AttributeError\<close> it raises is passed over, a \<^verbatim>\<open>TypeError\<close> gives the diagnostic
  line, any other exception is raised again. So an exception that leaves the flush is
  never \<^verbatim>\<open>AttributeError\<close> or \<^verbatim>\<open>TypeError\<close>; and when the flush returns, \<open>optimize\<close>
  (with \<open>verb_disp = None\<close>) returns \<^verbatim>\<open>self\<close> as the flush left it.
\<close>

theorem force_final_logging_failures:
  "(logger_attribute m self = Logger_None \<longrightarrow> force_final_logging m self = (Inr (), self, [])) \<and>
   (logger_attribute m self = Logger lg \<and> logger_add lg = None \<longrightarrow>
      force_final_logging m self = (Inr (), self, [])) \<and>
   (logger_attribute m self = Logger lg \<and> logger_add lg = Some (Add_without_modulo g) \<longrightarrow>
      force_final_logging m self = (Inr (), self, [Suppressing_final_logger_call])) \<and>
   (logger_attribute m self = Logger lg \<and> logger_add lg = Some (Add_with_modulo h) \<and>
    h (Some (case logger_modulo lg of None \<Rightarrow> 1 | Some n \<Rightarrow> if n \<noteq> 0 then 1 else 0)) self = (r, s1) \<longrightarrow>
      force_final_logging m self =
        (case r of
           Inr u \<Rightarrow> (Inr (), s1, [])
         | Inl e \<Rightarrow>
             if e = AttributeError then (Inr (), s1, [])
             else if e = TypeError then (Inr (), s1, [Suppressing_final_logger_call])
             else (Inl e, s1, []))) \<and>
   (logger_attribute m self \<noteq> No_logger_attribute \<and> fst (force_final_logging m self) = Inl e' \<longrightarrow>
      e' \<noteq> AttributeError \<and> e' \<noteq> TypeError) \<and>
   ((case its of None \<Rightarrow> True | Some n \<Rightarrow> min_it \<le> n) \<and>
    prepare_callback_list m cb s0 = Inr cs \<and>
    optimize_loop fuel m f maxfun its min_it a None cs 0 0 s0 =
      Some (Inr (Condition_false, citer, cevals), self) \<and>
    force_final_logging m self = (Inr (), s2, out) \<longrightarrow>
      optimize fuel m f maxfun its min_it a None cb s0 = Some (Inr (), s2, out))"
proof (intro conjI impI)
  assume "logger_attribute m self = Logger_None"
  then show "force_final_logging m self = (Inr (), self, [])"
    by (simp add: force_final_logging_def)
next
  assume "logger_attribute m self = Logger lg \<and> logger_add lg = None"
  then show "force_final_logging m self = (Inr (), self, [])"
    by (simp add: force_final_logging_def)
next
  assume "logger_attribute m self = Logger lg \<and> logger_add lg = Some (Add_without_modulo g)"
  then show "force_final_logging m self = (Inr (), self, [Suppressing_final_logger_call])"
    by (simp add: force_final_logging_def)
next
  assume "logger_attribute m self = Logger lg \<and> logger_add lg = Some (Add_with_modulo h) \<and>
    h (Some (case logger_modulo lg of None \<Rightarrow> 1 | Some n \<Rightarrow> if n \<noteq> 0 then 1 else 0)) self = (r, s1)"
  then show "force_final_logging m self =
        (case r of
           Inr u \<Rightarrow> (Inr (), s1, [])
         | Inl e \<Rightarrow>
             if e = AttributeError then (Inr (), s1, [])
             else if e = TypeError then (Inr (), s1, [Suppressing_final_logger_call])
             else (Inl e, s1, []))"
    by (cases r) (simp_all add: force_final_logging_def Let_def)
next
  assume h: "logger_attribute m self \<noteq> No_logger_attribute \<and> fst (force_final_logging m self) = Inl e'"
  then have "e' \<noteq> AttributeError \<and> e' \<noteq> TypeError"
    unfolding force_final_logging_def Let_def
    by (auto split: logger_ref.splits option.splits add_method.splits prod.splits sum.splits if_splits)
  then show "e' \<noteq> AttributeError" and "e' \<noteq> TypeError" by simp_all
next
  assume "(case its of None \<Rightarrow> True | Some n \<Rightarrow> min_it \<le> n) \<and>
    prepare_callback_list m cb s0 = Inr cs \<and>
    optimize_loop fuel m f maxfun its min_it a None cs 0 0 s0 =
      Some (Inr (Condition_false, citer, cevals), self) \<and>
    force_final_logging m self = (Inr (), s2, out)"
  then show "optimize fuel m f maxfun its min_it a None cb s0 = Some (Inr (), s2, out)"
    by (simp add: optimize_def)
qed


theorem force_final_logging_failures_witness:
  "force_final_logging (stub_optimizer 0 Logger_None) stub0 = (Inr (), stub0, []) \<and>
   force_final_logging (stub_optimizer 0 (Logger logger_without_add)) stub0 = (Inr (), stub0, []) \<and>
   force_final_logging (stub_optimizer 0 (Logger logger_plain_add)) stub0 =
     (Inr (), stub0, [Suppressing_final_logger_call]) \<and>
   force_final_logging (stub_optimizer 0 (Logger stub_logger)) stub0 =
     (Inr (), \<lparr>told = 0, calls = [''add(modulo=1)'']\<rparr>, []) \<and>
   NotImplementedError \<noteq> AttributeError \<and> NotImplementedError \<noteq> TypeError \<and>
   optimize 10 (stub_optimizer 3 (Logger logger_plain_add)) sphere (10 ^ 99) None 1 () None
       Callback_None stub0 =
     Some (Inr (), \<lparr>told = 3, calls = [''add'', ''add'', ''add'']\<rparr>, [Suppressing_final_logger_call])"
proof -
  have a1: "logger_attribute (stub_optimizer 0 Logger_None) stub0 = Logger_None"
    by (simp add: stub_defs)
  have a2: "logger_attribute (stub_optimizer 0 (Logger logger_without_add)) stub0 = Logger logger_without_add \<and>
      logger_add logger_without_add = None"
    by (simp add: stub_defs logger_without_add_def)
  have a3: "logger_attribute (stub_optimizer 0 (Logger logger_plain_add)) stub0 = Logger logger_plain_add \<and>
      logger_add logger_plain_add = Some (Add_without_modulo (record_call ''add''))"
    by (simp add: stub_defs logger_plain_add_def)
  have a4: "logger_attribute (stub_optimizer 0 (Logger stub_logger)) stub0 = Logger stub_logger \<and>
      logger_add stub_logger = Some (Add_with_modulo (\<lambda>modulo_arg.
        record_call (case modulo_arg of
                       None \<Rightarrow> ''add''
                     | Some v \<Rightarrow> if v = 1 then ''add(modulo=1)'' else ''add(modulo=0)''))) \<and>
      (\<lambda>modulo_arg.
        record_call (case modulo_arg of
                       None \<Rightarrow> ''add''
                     | Some v \<Rightarrow> if v = 1 then ''add(modulo=1)'' else ''add(modulo=0)''))
        (Some (case logger_modulo stub_logger of None \<Rightarrow> 1 | Some n \<Rightarrow> if n \<noteq> 0 then 1 else 0)) stub0 =
      (Inr (), \<lparr>told = 0, calls = [''add(modulo=1)'']\<rparr>)"
    by (simp add: stub_defs)
  have a5: "logger_attribute (stub_optimizer 0 (Logger BaseDataLogger)) stub0 \<noteq> No_logger_attribute \<and>
      fst (force_final_logging (stub_optimizer 0 (Logger BaseDataLogger)) stub0) = Inl NotImplementedError"
    by (simp add: stub_defs run_defs BaseDataLogger_def)
  have a6: "(case (None :: int option) of None \<Rightarrow> True | Some n \<Rightarrow> 1 \<le> n) \<and>
      prepare_callback_list (stub_optimizer 3 (Logger logger_plain_add)) Callback_None stub0 =
        Inr [Callable (record_call ''add'')] \<and>
      optimize_loop 10 (stub_optimizer 3 (Logger logger_plain_add)) sphere (10 ^ 99) None 1 () None
          [Callable (record_call ''add'')] 0 0 stub0 =
        Some (Inr (Condition_false, 3, 6), \<lparr>told = 3, calls = [''add'', ''add'', ''add'']\<rparr>) \<and>
      force_final_logging (stub_optimizer 3 (Logger logger_plain_add))
          \<lparr>told = 3, calls = [''add'', ''add'', ''add'']\<rparr> =
        (Inr (), \<lparr>told = 3, calls = [''add'', ''add'', ''add'']\<rparr>, [Suppressing_final_logger_call])"
    by (simp add: stub_defs run_defs logger_plain_add_def eval_nat_numeral)
  note T = force_final_logging_failures
  have b1: "force_final_logging (stub_optimizer 0 Logger_None) stub0 = (Inr (), stub0, [])"
    by (rule T[THEN conjunct1, THEN mp, OF a1])
  have b2: "force_final_logging (stub_optimizer 0 (Logger logger_without_add)) stub0 = (Inr (), stub0, [])"
    by (rule T[THEN conjunct2, THEN conjunct1, THEN mp, OF a2])
  have b3: "force_final_logging (stub_optimizer 0 (Logger logger_plain_add)) stub0 =
     (Inr (), stub0, [Suppressing_final_logger_call])"
    by (rule T[THEN conjunct2, THEN conjunct2, THEN conjunct1, THEN mp, OF a3])
  have b4: "force_final_logging (stub_optimizer 0 (Logger stub_logger)) stub0 =
     (Inr (), \<lparr>told = 0, calls = [''add(modulo=1)'']\<rparr>, [])"
    using T[THEN conjunct2, THEN conjunct2, THEN conjunct2, THEN conjunct1, THEN mp, OF a4]
    by simp
  have b5: "NotImplementedError \<noteq> AttributeError \<and> NotImplementedError \<noteq> TypeError"
    by (rule T[THEN conjunct2, THEN conjunct2, THEN conjunct2, THEN conjunct2, THEN conjunct1,
          THEN mp, OF a5])
  have b6: "optimize 10 (stub_optimizer 3 (Logger logger_plain_add)) sphere (10 ^ 99) None 1 () None
       Callback_None stub0 =
     Some (Inr (), \<lparr>told = 3, calls = [''add'', ''add'', ''add'']\<rparr>, [Suppressing_final_logger_call])"
    by (rule T[THEN conjunct2, THEN conjunct2, THEN conjunct2, THEN conjunct2, THEN conjunct2,
          THEN mp, OF a6])
  from b1 b2 b3 b4 b5 b6 show ?thesis by (intro conjI) simp_all
qed

end
